theory Spec2Isabelle
  imports Complex_Main
begin

unbundle bit_operations_syntax

section \<open>The PowerPC value types of corepy (ppc\_types.py)\<close>

subsection \<open>Type classes, user classes and Python objects\<close>

text \<open>
  The five operator ("type") classes of the module. \<open>BitType\<close>, \<open>SingleFloatType\<close> and
  \<open>DoubleFloatType\<close> derive from \<open>PPCType\<close>; \<open>UnsignedWordType\<close> and \<open>SignedWordType\<close>
  derive from \<open>BitType\<close>. \<open>mro\<close> lists the operator classes on a class's method
  resolution order (\<open>PPCType\<close>, \<open>spe.Type\<close> and \<open>object\<close> follow on every one of them
  and are left out: they are above all five).
\<close>

datatype ppc_type =
  BitType | UnsignedWordType | SignedWordType | SingleFloatType | DoubleFloatType

fun mro :: "ppc_type \<Rightarrow> ppc_type list" where
  "mro BitType = [BitType]"
| "mro UnsignedWordType = [UnsignedWordType, BitType]"
| "mro SignedWordType = [SignedWordType, BitType]"
| "mro SingleFloatType = [SingleFloatType]"
| "mro DoubleFloatType = [DoubleFloatType]"

definition issubclass :: "ppc_type \<Rightarrow> ppc_type \<Rightarrow> bool" where
  "issubclass c d = (d \<in> set (mro c))"

text \<open>
  The classes an operand can have. \<open>VarCls k\<close> is the Variable class and \<open>ExCls k\<close> the
  Expression class that \<open>make_user_type\<close> builds for the type class \<open>k\<close> (\<open>VarCls BitType\<close>
  is \<open>Bits\<close>, \<open>ExCls BitType\<close> is \<open>BitsEx\<close>, \<open>VarCls SignedWordType\<close> is \<open>SignedWord\<close>, and
  so on); the others are the host classes the operators test for.
\<close>

datatype pyclass =
  VarCls ppc_type | ExCls ppc_type
  | IntCls | LongCls | FloatCls | ImmediateCls | NoneCls

datatype reg = gp nat | fp nat

datatype inst =
  andx | andi | orx | ori | xorx | xori | slwx | srwx
  | addx | addi | addis | divwux | divwx | mullwx | mulli | negx | subfx
  | fabsx | fnegx | faddsx | fdivsx | fmulsx | fsubsx | faddx | fdivx | fmulx | fsubx
  | lfs | lfd
  | fmaddsx | fmaddx | fmsubsx | fmsubx | fnmaddsx | fnmaddx | fnmsubsx | fnmsubx
  | fsqrtsx | fsqrtx

text \<open>
  Python objects that reach the operators: an instance of a Variable class (bound to a
  register), an instance of an Expression class (an instruction and its operands), or
  a host value.
\<close>

datatype pyobj =
  Variable ppc_type reg
  | Expression ppc_type inst "pyobj list"
  | PyInt int | PyLong int | PyFloat | Immediate int | PyNone

fun type_of :: "pyobj \<Rightarrow> pyclass" where
  "type_of (Variable k r) = VarCls k"
| "type_of (Expression k i ops) = ExCls k"
| "type_of (PyInt n) = IntCls"
| "type_of (PyLong n) = LongCls"
| "type_of PyFloat = FloatCls"
| "type_of (Immediate n) = ImmediateCls"
| "type_of PyNone = NoneCls"

text \<open>
  The attributes \<open>type_cls\<close>, \<open>var_cls\<close> and \<open>expr_cls\<close> of an object: \<open>None\<close> where the
  object has no such attribute (\<open>hasattr\<close> is false and reading it raises
  AttributeError). Instances of the user classes find \<open>type_cls\<close> in their class and
  \<open>var_cls\<close>, \<open>expr_cls\<close> in their type class.
\<close>

fun type_cls :: "pyobj \<Rightarrow> ppc_type option" where
  "type_cls (Variable k r) = Some k"
| "type_cls (Expression k i ops) = Some k"
| "type_cls x = None"

definition hasattr_type_cls :: "pyobj \<Rightarrow> bool" where
  "hasattr_type_cls x = (type_cls x \<noteq> None)"

definition var_cls :: "pyobj \<Rightarrow> pyclass option" where
  "var_cls x = map_option VarCls (type_cls x)"

definition expr_cls :: "pyobj \<Rightarrow> pyclass option" where
  "expr_cls x = map_option ExCls (type_cls x)"

definition isinstance :: "pyobj \<Rightarrow> ppc_type \<Rightarrow> bool" where
  "isinstance x k = (case type_cls x of None \<Rightarrow> False | Some c \<Rightarrow> issubclass c k)"

text \<open>\<open>_int_literals = (spe.Immediate, int, long)\<close>, and the pair \<open>(spe.Immediate, int)\<close>
  that the word types test for.\<close>

fun isinstance_int_literals :: "pyobj \<Rightarrow> bool" where
  "isinstance_int_literals (Immediate n) = True"
| "isinstance_int_literals (PyInt n) = True"
| "isinstance_int_literals (PyLong n) = True"
| "isinstance_int_literals x = False"

fun isinstance_Immediate_int :: "pyobj \<Rightarrow> bool" where
  "isinstance_Immediate_int (Immediate n) = True"
| "isinstance_Immediate_int (PyInt n) = True"
| "isinstance_Immediate_int x = False"

subsection \<open>Exceptions\<close>

text \<open>
  The message of an exception, as the source builds it: a literal, a format string
  applied to classes (\<open>fmt % (type(self), type(other))\<close>), or a string followed by
  \<open>str\<close> of a class.
\<close>

datatype message =
  Literal string | Format string "pyclass list" | Concat string pyclass

datatype error =
  Exception message | TypeError string | AttributeError string | IndexError string

subsection \<open>The type-precedence resolver\<close>

text \<open>
  \<open>_most_specific(a, b, default = None)\<close>. The first test reads
  \<open>hasattr(a, 'type_cls') and hasattr(a, 'type_cls')\<close>: it asks \<open>a\<close> twice and never
  \<open>b\<close>. \<open>issubclass(b.type_cls, a.type_cls)\<close> evaluates \<open>b.type_cls\<close> first. The result
  is a class (\<open>type(a)\<close>, \<open>type(b)\<close>) or the default; Python's \<open>None\<close> is \<open>None\<close>.
\<close>

definition most_specific ::
  "pyobj \<Rightarrow> pyobj \<Rightarrow> pyclass option \<Rightarrow> error + pyclass option" where
  "most_specific a b dflt =
     (if hasattr_type_cls a \<and> hasattr_type_cls a then
        (case type_cls b of
           None \<Rightarrow> Inl (AttributeError ''type_cls'')
         | Some kb \<Rightarrow>
            (case type_cls a of
               None \<Rightarrow> Inl (AttributeError ''type_cls'')
             | Some ka \<Rightarrow>
                 if issubclass kb ka then Inr (Some (type_of b))
                 else if issubclass ka kb then Inr (Some (type_of a))
                 else Inr dflt))
      else if dflt = None then
        (if hasattr_type_cls a then Inr (Some (type_of a))
         else if hasattr_type_cls b then Inr (Some (type_of b))
         else Inr dflt)
      else Inr dflt)"

subsection \<open>Instruction streams\<close>

text \<open>
  An emitted instruction is an instruction of the ISA applied to registers and
  immediates.
\<close>

datatype arg = Reg reg | Imm int

datatype instruction = Instr inst "arg list"

text \<open>
  An \<open>array.array\<close> object: its typecode, the items it was built from and the address of
  its buffer (\<open>buffer_info()[0]\<close>). The host's floating-point values are the type \<open>'f\<close>:
  they are stored and never computed with; the array narrows an item to the width of
  its typecode (\<open>'f'\<close>: 32 bits, \<open>'d'\<close>: 64 bits).
\<close>

record 'f pyarray =
  typecode :: char
  items :: "'f list"
  buffer_address :: int

text \<open>
  Modelled from the spec: the instruction stream and its register allocator
  (\<open>InstructionStream\<close>, not under src/). \<open>add\<close> appends an instruction (emission order
  is execution order), \<open>add_storage\<close> appends a constant-pool entry,
  \<open>acquire_register\<close> hands out a free register and \<open>release_register\<close> returns one.
  With no free register left there is no handle to hand out and \<open>acquire_register\<close>
  raises.
\<close>

record 'f stream =
  free_regs :: "reg list"
  instrs :: "instruction list"
  storage :: "'f pyarray list"

text \<open>
  The streams are objects with identity (a Variable keeps a reference to its stream in
  \<open>self.code\<close>, and the active-code slot refers to a stream too), so the state is a store
  of streams by reference, and the slot that \<open>get_active_code\<close>/\<open>set_active_code\<close> read
  and write. Python's \<open>None\<close> in the slot is \<open>None\<close>.
\<close>

record 'f world =
  streams :: "nat \<Rightarrow> 'f stream"
  active_code :: "nat option"

definition upd_stream :: "nat \<Rightarrow> ('f stream \<Rightarrow> 'f stream) \<Rightarrow> 'f world \<Rightarrow> 'f world" where
  "upd_stream c f w = w\<lparr>streams := (streams w)(c := f (streams w c))\<rparr>"

definition code_add :: "nat \<Rightarrow> instruction \<Rightarrow> 'f world \<Rightarrow> 'f world" where
  "code_add c i w = upd_stream c (\<lambda>s. s\<lparr>instrs := instrs s @ [i]\<rparr>) w"

definition code_add_storage :: "nat \<Rightarrow> 'f pyarray \<Rightarrow> 'f world \<Rightarrow> 'f world" where
  "code_add_storage c a w = upd_stream c (\<lambda>s. s\<lparr>storage := storage s @ [a]\<rparr>) w"

definition code_acquire_register :: "nat \<Rightarrow> 'f world \<Rightarrow> (error + reg) \<times> 'f world" where
  "code_acquire_register c w =
     (case free_regs (streams w c) of
        [] \<Rightarrow> (Inl (Exception (Literal ''No free registers'')), w)
      | r # rs \<Rightarrow> (Inr r, upd_stream c (\<lambda>s. s\<lparr>free_regs := rs\<rparr>) w))"

definition code_release_register :: "nat \<Rightarrow> reg \<Rightarrow> 'f world \<Rightarrow> 'f world" where
  "code_release_register c r w = upd_stream c (\<lambda>s. s\<lparr>free_regs := r # free_regs s\<rparr>) w"

subsection \<open>Literal materialization, integer kinds\<close>

text \<open>
  The fields of a Variable that the literal routines read: \<open>self.value\<close>, \<open>self.reg\<close>
  and \<open>self.code\<close> (a reference to a stream, or \<open>None\<close>).
\<close>

record 'v variable =
  self_value :: "'v option"
  self_reg :: reg
  self_code :: "nat option"

text \<open>
  \<open>BitType._set_literal_value(self, value)\<close>. Python's \<open>&\<close> and \<open>>>\<close> on its unbounded
  integers are \<open>AND\<close> and \<open>drop_bit\<close> on \<open>int\<close> (the shift rounds towards minus
  infinity). With \<open>self.code\<close> \<open>None\<close> the call \<open>self.code.add\<close> raises AttributeError.
\<close>

definition BitType_set_literal_value ::
  "('v, 'z) variable_scheme \<Rightarrow> int \<Rightarrow> 'f world \<Rightarrow> (error + unit) \<times> 'f world" where
  "BitType_set_literal_value self v w =
     (case self_code self of
        None \<Rightarrow> (Inl (AttributeError ''add''), w)
      | Some c \<Rightarrow>
          let w1 = code_add c (Instr addi [Reg (self_reg self), Imm 0, Imm v]) w in
          if v AND 0xFFFF \<noteq> v then
            (Inr (),
             code_add c
               (Instr addis [Reg (self_reg self), Reg (self_reg self),
                  Imm (drop_bit 16 (v + 32768))]) w1)
          else (Inr (), w1))"

text \<open>The instructions the routine emits for a literal, in order.\<close>

definition literal_instrs :: "reg \<Rightarrow> int \<Rightarrow> instruction list" where
  "literal_instrs r v =
     Instr addi [Reg r, Imm 0, Imm v] #
     (if v AND 0xFFFF \<noteq> v then [Instr addis [Reg r, Reg r, Imm (drop_bit 16 (v + 32768))]]
      else [])"

subsection \<open>Computed values and the operators\<close>

text \<open>
  What an operator returns: the value of \<open>inst.ex(*operands, type_cls = k)\<close>, or the
  value of calling an Expression class, \<open>cls(inst, *operands)\<close>.
\<close>

datatype computed =
  Factory inst "pyobj list" "pyclass option"
  | Instance pyclass inst "pyobj list"

text \<open>
  Modelled from the spec: the factory form \<open>ex\<close> of an instruction (the instruction
  encoder, not under src/), "a factory form taking operand values plus an explicit
  forced result kind, returning a ComputedValue". The computed value is recorded with
  the instruction, the operands and the forced kind as they were passed.
\<close>

definition ex :: "inst \<Rightarrow> pyobj list \<Rightarrow> pyclass option \<Rightarrow> error + computed" where
  "ex i operands k = Inr (Factory i operands k)"

text \<open>
  Modelled from the spec: calling an Expression class (\<open>spe.Expression\<close>, not under
  src/) with an instruction and operands gives an instance of that class holding them.
\<close>

definition new_Expression :: "pyclass \<Rightarrow> inst \<Rightarrow> pyobj list \<Rightarrow> error + computed" where
  "new_Expression cls i operands = Inr (Instance cls i operands)"

text \<open>
  \<open>BitType._upcast\<close> and the operators of \<open>BitType\<close>. The operators are also exposed
  as static functions (\<open>and_\<close>, \<open>or_\<close>, \<open>xor\<close>, ...), so \<open>self\<close> can be any object: the
  lookup \<open>self._upcast\<close> succeeds on instances of \<open>BitType\<close> only and raises
  AttributeError on every other object, as \<open>self.var_cls\<close> does on an object without
  that attribute.
\<close>

definition BitType_upcast :: "pyobj \<Rightarrow> pyobj \<Rightarrow> inst \<Rightarrow> error + computed" where
  "BitType_upcast self other i =
     (case most_specific self other None of
        Inl e \<Rightarrow> Inl e
      | Inr k \<Rightarrow> ex i [self, other] k)"

definition BitType_and :: "pyobj \<Rightarrow> pyobj \<Rightarrow> error + computed" where
  "BitType_and self other =
     (if isinstance other BitType then
        (if isinstance self BitType then BitType_upcast self other andx
         else Inl (AttributeError ''_upcast''))
      else if isinstance_int_literals other then
        (case var_cls self of
           None \<Rightarrow> Inl (AttributeError ''var_cls'')
         | Some v \<Rightarrow> ex andi [self, other] (Some v))
      else Inl (Exception (Format ''__and__ not implemented for %s and %s''
                  [type_of self, type_of other])))"

definition BitType_lshift :: "pyobj \<Rightarrow> pyobj \<Rightarrow> error + computed" where
  "BitType_lshift self other =
     (if isinstance other BitType then
        (case var_cls self of
           None \<Rightarrow> Inl (AttributeError ''var_cls'')
         | Some v \<Rightarrow> ex slwx [self, other] (Some v))
      else Inl (Exception (Format ''__lshift__ not implemented for %s and %s''
                  [type_of self, type_of other])))"

definition BitType_rshift :: "pyobj \<Rightarrow> pyobj \<Rightarrow> error + computed" where
  "BitType_rshift self other =
     (if isinstance other BitType then
        (case var_cls self of
           None \<Rightarrow> Inl (AttributeError ''var_cls'')
         | Some v \<Rightarrow> ex srwx [self, other] (Some v))
      else Inl (Exception (Format ''__rshift__ not implemented for %s and %s''
                  [type_of self, type_of other])))"

definition BitType_or :: "pyobj \<Rightarrow> pyobj \<Rightarrow> error + computed" where
  "BitType_or self other =
     (if isinstance other BitType then
        (if isinstance self BitType then BitType_upcast self other orx
         else Inl (AttributeError ''_upcast''))
      else if isinstance_int_literals other then
        (case var_cls self of
           None \<Rightarrow> Inl (AttributeError ''var_cls'')
         | Some v \<Rightarrow> ex ori [self, other] (Some v))
      else Inl (Exception (Format ''__or__ not implemented for %s and %s''
                  [type_of self, type_of other])))"

definition BitType_xor :: "pyobj \<Rightarrow> pyobj \<Rightarrow> error + computed" where
  "BitType_xor self other =
     (if isinstance other BitType then
        (if isinstance self BitType then BitType_upcast self other xorx
         else Inl (AttributeError ''_upcast''))
      else if isinstance_int_literals other then
        (case var_cls self of
           None \<Rightarrow> Inl (AttributeError ''var_cls'')
         | Some v \<Rightarrow> ex xori [self, other] (Some v))
      else Inl (Exception (Format ''__xor__ not implemented for %s and %s''
                  [type_of self, type_of other])))"

text \<open>
  The operators of \<open>UnsignedWordType\<close>. Its \<open>__div__\<close> ends in \<open>raise NotImplemented\<close>:
  \<open>NotImplemented\<close> is not an exception, and raising it is a TypeError of the
  interpreter.
\<close>

definition UnsignedWordType_add :: "pyobj \<Rightarrow> pyobj \<Rightarrow> error + computed" where
  "UnsignedWordType_add self other =
     (if isinstance other UnsignedWordType then
        (case var_cls self of
           None \<Rightarrow> Inl (AttributeError ''var_cls'')
         | Some v \<Rightarrow> ex addx [self, other] (Some v))
      else if isinstance_Immediate_int other then
        (case expr_cls self of
           None \<Rightarrow> Inl (AttributeError ''expr_cls'')
         | Some e \<Rightarrow> new_Expression e addi [self, other])
      else Inl (Exception (Format ''__add__ not implemented for %s and %s''
                  [type_of self, type_of other])))"

definition UnsignedWordType_div :: "pyobj \<Rightarrow> pyobj \<Rightarrow> error + computed" where
  "UnsignedWordType_div self other =
     (if isinstance other SignedWordType then
        (case expr_cls self of
           None \<Rightarrow> Inl (AttributeError ''expr_cls'')
         | Some e \<Rightarrow> new_Expression e divwux [self, other])
      else Inl (TypeError
        ''exceptions must be old-style classes or derived from BaseException, not NotImplementedType''))"

text \<open>
  The binary operators of \<open>SignedWordType\<close>. (The unary operators and the operators of
  the two float types follow the same pattern, one instruction per accepted operand
  class, and play no part below.)
\<close>

definition SignedWordType_add :: "pyobj \<Rightarrow> pyobj \<Rightarrow> error + computed" where
  "SignedWordType_add self other =
     (if isinstance other SignedWordType then
        (case var_cls self of
           None \<Rightarrow> Inl (AttributeError ''var_cls'')
         | Some v \<Rightarrow> ex addx [self, other] (Some v))
      else if isinstance_Immediate_int other then
        (case expr_cls self of
           None \<Rightarrow> Inl (AttributeError ''expr_cls'')
         | Some e \<Rightarrow> new_Expression e addi [self, other])
      else Inl (Exception (Format ''__add__ not implemented for %s and %s''
                  [type_of self, type_of other])))"

definition SignedWordType_div :: "pyobj \<Rightarrow> pyobj \<Rightarrow> error + computed" where
  "SignedWordType_div self other =
     (if isinstance other SignedWordType then
        (case expr_cls self of
           None \<Rightarrow> Inl (AttributeError ''expr_cls'')
         | Some e \<Rightarrow> new_Expression e divwx [self, other])
      else Inl (Exception (Format ''__div__ not implemented for %s and %s''
                  [type_of self, type_of other])))"

definition SignedWordType_mul :: "pyobj \<Rightarrow> pyobj \<Rightarrow> error + computed" where
  "SignedWordType_mul self other =
     (if isinstance other SignedWordType then
        (case expr_cls self of
           None \<Rightarrow> Inl (AttributeError ''expr_cls'')
         | Some e \<Rightarrow> new_Expression e mullwx [self, other])
      else if isinstance_Immediate_int other then
        (case expr_cls self of
           None \<Rightarrow> Inl (AttributeError ''expr_cls'')
         | Some e \<Rightarrow> new_Expression e mulli [self, other])
      else Inl (Exception (Format ''__mul__ not implemented for %s and %s''
                  [type_of self, type_of other])))"

definition SignedWordType_sub :: "pyobj \<Rightarrow> pyobj \<Rightarrow> error + computed" where
  "SignedWordType_sub self other =
     (if isinstance other SignedWordType then
        (case expr_cls self of
           None \<Rightarrow> Inl (AttributeError ''expr_cls'')
         | Some e \<Rightarrow> new_Expression e subfx [other, self])
      else Inl (Exception (Format ''__add__ not implemented for %s and %s''
                  [type_of self, type_of other])))"

subsection \<open>The floating-point intrinsic dispatcher\<close>

record float_function =
  name :: string
  single_func :: inst
  double_func :: inst

text \<open>
  The loop \<open>for op in operands[1:]\<close> of \<open>_float_function.__call__\<close>: the first exception
  it raises, if any. \<open>op.var_cls\<close> is read before \<open>a.var_cls\<close>.
\<close>

fun check_operands :: "pyobj \<Rightarrow> pyobj list \<Rightarrow> error option" where
  "check_operands a [] = None"
| "check_operands a (x # xs) =
     (case var_cls x of
        None \<Rightarrow> Some (AttributeError ''var_cls'')
      | Some vx \<Rightarrow>
         (case var_cls a of
            None \<Rightarrow> Some (AttributeError ''var_cls'')
          | Some va \<Rightarrow>
              if vx \<noteq> va
              then Some (Exception (Literal ''Types for all operands must be the same''))
              else check_operands a xs))"

text \<open>
  \<open>_float_function.__call__(self, *operands, **koperands)\<close>; \<open>SingleFloat\<close> and
  \<open>DoubleFloat\<close> are the Variable classes of the two float kinds. \<open>operands[0]\<close> of an
  empty tuple raises IndexError.
\<close>

definition float_function_call :: "float_function \<Rightarrow> pyobj list \<Rightarrow> error + computed" where
  "float_function_call self operands =
     (case operands of
        [] \<Rightarrow> Inl (IndexError ''tuple index out of range'')
      | a # rest \<Rightarrow>
         (case check_operands a rest of
            Some e \<Rightarrow> Inl e
          | None \<Rightarrow>
              if isinstance a SingleFloatType
              then ex (single_func self) operands (Some (VarCls SingleFloatType))
              else if isinstance a DoubleFloatType
              then ex (double_func self) operands (Some (VarCls DoubleFloatType))
              else Inl (Exception
                     (Concat (name self @ '' is not implemeneted for '') (type_of a)))))"

definition fmadd :: float_function where
  "fmadd = \<lparr>name = ''fmadd'', single_func = fmaddsx, double_func = fmaddx\<rparr>"

definition fmsub :: float_function where
  "fmsub = \<lparr>name = ''fmsub'', single_func = fmsubsx, double_func = fmsubx\<rparr>"

definition fnmadd :: float_function where
  "fnmadd = \<lparr>name = ''fnmadd'', single_func = fnmaddsx, double_func = fnmaddx\<rparr>"

definition fnmsub :: float_function where
  "fnmsub = \<lparr>name = ''fnmsub'', single_func = fnmsubsx, double_func = fnmsubx\<rparr>"

definition fsqrt :: float_function where
  "fsqrt = \<lparr>name = ''fsqrt'', single_func = fsqrtsx, double_func = fsqrtx\<rparr>"

subsection \<open>Literal materialization, floating-point kinds\<close>

text \<open>
  Modelled from the spec: constructing a storage value from a host literal with a
  caller-supplied register and no stream argument, \<open>Bits(v, reg = r)\<close>
  (\<open>spe.Variable.__init__\<close>, not under src/). The new value is bound to the register,
  targets the stream in the active-code slot ("the instruction stream that all emission
  targets by default") and materializes its literal with the routine of its kind,
  \<open>BitType._set_literal_value\<close>. It does not touch the allocator.
\<close>

definition new_Bits :: "int \<Rightarrow> reg \<Rightarrow> 'f world \<Rightarrow> (error + int variable) \<times> 'f world" where
  "new_Bits v r w =
     (let self = \<lparr>self_value = Some v, self_reg = r, self_code = active_code w\<rparr> in
      case BitType_set_literal_value self v w of
        (Inl e, w') \<Rightarrow> (Inl e, w')
      | (Inr u, w') \<Rightarrow> (Inr self, w'))"

text \<open>
  \<open>SingleFloatType._set_literal_value(self, value)\<close> and its double-precision twin. The
  parameter \<open>value\<close> is the second argument; \<open>buf\<close> is the address the host gives the new
  array's buffer. \<open>self.value\<close> is a float or \<open>None\<close> (\<open>literal_types = (float,)\<close>);
  \<open>float(None)\<close> raises TypeError and \<open>float\<close> of a float is that float. There is no
  \<open>try\<close> in the routine: an exception of any step leaves it at once.
\<close>

definition SingleFloatType_set_literal_value ::
  "('f, 'z) variable_scheme \<Rightarrow> 'a \<Rightarrow> int \<Rightarrow> 'f world \<Rightarrow> (error + unit) \<times> 'f world" where
  "SingleFloatType_set_literal_value self v buf w =
     (case self_value self of
        None \<Rightarrow> (Inl (TypeError ''float() argument must be a string or a number''), w)
      | Some x \<Rightarrow>
         (let arr = \<lparr>typecode = CHR ''f'', items = [x], buffer_address = buf\<rparr> in
          case self_code self of
            None \<Rightarrow> (Inl (AttributeError ''add_storage''), w)
          | Some c \<Rightarrow>
             (case code_acquire_register c (code_add_storage c arr w) of
                (Inl e, w2) \<Rightarrow> (Inl e, w2)
              | (Inr r_storage, w2) \<Rightarrow>
                 (case new_Bits (buffer_address arr) r_storage w2 of
                    (Inl e, w3) \<Rightarrow> (Inl e, w3)
                  | (Inr addr, w3) \<Rightarrow>
                      (Inr (),
                       code_release_register c r_storage
                         (code_add c
                            (Instr lfs [Reg (self_reg self), Reg (self_reg addr), Imm 0])
                            w3))))))"

definition DoubleFloatType_set_literal_value ::
  "('f, 'z) variable_scheme \<Rightarrow> 'a \<Rightarrow> int \<Rightarrow> 'f world \<Rightarrow> (error + unit) \<times> 'f world" where
  "DoubleFloatType_set_literal_value self v buf w =
     (case self_value self of
        None \<Rightarrow> (Inl (TypeError ''float() argument must be a string or a number''), w)
      | Some x \<Rightarrow>
         (let arr = \<lparr>typecode = CHR ''d'', items = [x], buffer_address = buf\<rparr> in
          case self_code self of
            None \<Rightarrow> (Inl (AttributeError ''add_storage''), w)
          | Some c \<Rightarrow>
             (case code_acquire_register c (code_add_storage c arr w) of
                (Inl e, w2) \<Rightarrow> (Inl e, w2)
              | (Inr r_storage, w2) \<Rightarrow>
                 (case new_Bits (buffer_address arr) r_storage w2 of
                    (Inl e, w3) \<Rightarrow> (Inl e, w3)
                  | (Inr addr, w3) \<Rightarrow>
                      (Inr (),
                       code_release_register c r_storage
                         (code_add c
                            (Instr lfd [Reg (self_reg self), Reg (self_reg addr), Imm 0])
                            w3))))))"

text \<open>
  The two routines differ in the typecode and the load instruction only. Their common
  body, and the world a call that returns leaves behind (\<open>c\<close> the value's stream, \<open>a\<close> the
  active stream, \<open>r\<close> the scratch register taken from the head of the free list), are
  named for the proofs.
\<close>

definition float_set_literal_value ::
  "inst \<Rightarrow> char \<Rightarrow> ('f, 'z) variable_scheme \<Rightarrow> int \<Rightarrow> 'f world \<Rightarrow> (error + unit) \<times> 'f world"
  where
  "float_set_literal_value ld tc self buf w =
     (case self_value self of
        None \<Rightarrow> (Inl (TypeError ''float() argument must be a string or a number''), w)
      | Some x \<Rightarrow>
         (let arr = \<lparr>typecode = tc, items = [x], buffer_address = buf\<rparr> in
          case self_code self of
            None \<Rightarrow> (Inl (AttributeError ''add_storage''), w)
          | Some c \<Rightarrow>
             (case code_acquire_register c (code_add_storage c arr w) of
                (Inl e, w2) \<Rightarrow> (Inl e, w2)
              | (Inr r_storage, w2) \<Rightarrow>
                 (case new_Bits (buffer_address arr) r_storage w2 of
                    (Inl e, w3) \<Rightarrow> (Inl e, w3)
                  | (Inr addr, w3) \<Rightarrow>
                      (Inr (),
                       code_release_register c r_storage
                         (code_add c
                            (Instr ld [Reg (self_reg self), Reg (self_reg addr), Imm 0])
                            w3))))))"

definition float_literal_world ::
  "inst \<Rightarrow> char \<Rightarrow> 'f \<Rightarrow> reg \<Rightarrow> nat \<Rightarrow> nat \<Rightarrow> reg \<Rightarrow> reg list \<Rightarrow> int \<Rightarrow> 'f world \<Rightarrow> 'f world"
  where
  "float_literal_world ld tc x dst c a r rs buf w =
     code_release_register c r
       (code_add c (Instr ld [Reg dst, Reg r, Imm 0])
          (upd_stream a (\<lambda>s. s\<lparr>instrs := instrs s @ literal_instrs r buf\<rparr>)
             (upd_stream c (\<lambda>s. s\<lparr>free_regs := rs\<rparr>)
                (code_add_storage c \<lparr>typecode = tc, items = [x], buffer_address = buf\<rparr> w))))"


subsection \<open>The dual-class factory\<close>

text \<open>
  Classes are objects: \<open>type(name, bases, dict)\<close> makes a new one at every call. The
  state keeps the classes made so far (a class is known by its position), the
  attributes \<open>var_cls\<close> and \<open>expr_cls\<close> set on the type classes, and the namespace \<open>g\<close>.
\<close>

datatype base = SpeVariable | SpeExpression | TypeBase ppc_type

record class_obj =
  cls_name :: string
  cls_bases :: "base list"
  cls_type_cls :: ppc_type

record pystate =
  classes :: "class_obj list"
  var_cls_attr :: "ppc_type \<Rightarrow> nat option"
  expr_cls_attr :: "ppc_type \<Rightarrow> nat option"
  globals :: "string \<Rightarrow> nat option"

definition empty_pystate :: pystate where
  "empty_pystate =
     \<lparr>classes = [], var_cls_attr = (\<lambda>k. None), expr_cls_attr = (\<lambda>k. None),
      globals = (\<lambda>n. None)\<rparr>"

text \<open>
  \<open>make_user_type(name, type_cls, g)\<close> with \<open>g\<close> the module's namespace. The body has no
  test and no \<open>raise\<close>.
\<close>

definition make_user_type :: "string \<Rightarrow> ppc_type \<Rightarrow> pystate \<Rightarrow> error + pystate" where
  "make_user_type nm k st =
     (let v = length (classes st);
          st1 = st\<lparr>classes := classes st @
                  [\<lparr>cls_name = nm, cls_bases = [SpeVariable, TypeBase k], cls_type_cls = k\<rparr>]\<rparr>;
          e = length (classes st1);
          st2 = st1\<lparr>classes := classes st1 @
                  [\<lparr>cls_name = nm @ ''Ex'', cls_bases = [SpeExpression, TypeBase k],
                    cls_type_cls = k\<rparr>]\<rparr>;
          st3 = st2\<lparr>var_cls_attr := (var_cls_attr st2)(k := Some v)\<rparr>;
          st4 = st3\<lparr>expr_cls_attr := (expr_cls_attr st3)(k := Some e)\<rparr>
      in Inr (st4\<lparr>globals := (globals st4)(nm := Some v)\<rparr>))"

text \<open>
  \<open>_user_types\<close> and the loop over it at import time (the loop calls the factory through
  \<open>util\<close>; it is the factory above).
\<close>

definition user_types :: "(string \<times> ppc_type) list" where
  "user_types =
     [(''Bits'', BitType), (''UnsignedWord'', UnsignedWordType),
      (''SignedWord'', SignedWordType), (''SingleFloat'', SingleFloatType),
      (''DoubleFloat'', DoubleFloatType)]"

fun register_types :: "(string \<times> ppc_type) list \<Rightarrow> pystate \<Rightarrow> error + pystate" where
  "register_types [] st = Inr st"
| "register_types (t # ts) st =
     (case make_user_type (fst t) (snd t) st of
        Inl e \<Rightarrow> Inl e
      | Inr st' \<Rightarrow> register_types ts st')"

text \<open>The state of the module once it is imported.\<close>

definition registered :: pystate where
  "registered =
     (case register_types user_types empty_pystate of
        Inr st \<Rightarrow> st
      | Inl e \<Rightarrow> empty_pystate)"

text \<open>
  Reading \<open>k.var_cls\<close> or \<open>k.expr_cls\<close> on a type class: the attribute of the first class
  on the method resolution order that has it.
\<close>

fun find_attr :: "(ppc_type \<Rightarrow> nat option) \<Rightarrow> ppc_type list \<Rightarrow> nat option" where
  "find_attr f [] = None"
| "find_attr f (k # ks) = (case f k of Some c \<Rightarrow> Some c | None \<Rightarrow> find_attr f ks)"

definition get_var_cls :: "pystate \<Rightarrow> ppc_type \<Rightarrow> nat option" where
  "get_var_cls st k = find_attr (var_cls_attr st) (mro k)"

definition get_expr_cls :: "pystate \<Rightarrow> ppc_type \<Rightarrow> nat option" where
  "get_expr_cls st k = find_attr (expr_cls_attr st) (mro k)"

text \<open>The classes (by position) whose \<open>type_cls\<close> is \<open>k\<close> and whose first base is \<open>b\<close>.\<close>

definition classes_of :: "pystate \<Rightarrow> base \<Rightarrow> ppc_type \<Rightarrow> nat list" where
  "classes_of st b k =
     filter (\<lambda>i. cls_type_cls (classes st ! i) = k \<and> hd (cls_bases (classes st ! i)) = b)
       [0 ..< length (classes st)]"

subsection \<open>The framebuffer demo (fbdemo.py)\<close>

record fbdraw =
  buffers :: "(int \<times> int) option"
  stride :: "int option"

definition FBDraw_init :: fbdraw where
  "FBDraw_init = \<lparr>buffers = None, stride = None\<rparr>"

definition set_buffers :: "int \<Rightarrow> int \<Rightarrow> fbdraw \<Rightarrow> fbdraw" where
  "set_buffers fb0 fb1 self = self\<lparr>buffers := Some (fb0, fb1)\<rparr>"

definition set_stride :: "int \<Rightarrow> fbdraw \<Rightarrow> fbdraw" where
  "set_stride s self = self\<lparr>stride := Some (s * 4)\<rparr>"

text \<open>
  \<open>FBDraw.synthesize(self, code)\<close>. \<open>draw\<close> stands for the code generation between the
  two tests and the final \<open>set_active_code\<close> (calls into the SPU libraries, not under
  src/). The two \<open>raise\<close> statements come after the new stream is installed, and
  nothing catches them.
\<close>

definition synthesize ::
  "(fbdraw \<Rightarrow> nat \<Rightarrow> 'f world \<Rightarrow> (error + unit) \<times> 'f world) \<Rightarrow>
   fbdraw \<Rightarrow> nat \<Rightarrow> 'f world \<Rightarrow> (error + unit) \<times> 'f world" where
  "synthesize draw self c w =
     (let old_code = active_code w;
          w1 = w\<lparr>active_code := Some c\<rparr>
      in if buffers self = None then (Inl (Exception (Literal ''Please set buffers'')), w1)
         else if stride self = None then (Inl (Exception (Literal ''Please set stride'')), w1)
         else (case draw self c w1 of
                 (Inl e, w2) \<Rightarrow> (Inl e, w2)
               | (Inr u, w2) \<Rightarrow> (Inr (), w2\<lparr>active_code := old_code\<rparr>)))"

subsection \<open>Example states\<close>

text \<open>
  A world whose streams are all empty and have two free registers, with no active
  stream, and the same world with stream 0 active.
\<close>

definition idle_world :: "real world" where
  "idle_world =
     \<lparr>streams = (\<lambda>c. \<lparr>free_regs = [gp 3, gp 4], instrs = [], storage = []\<rparr>),
      active_code = None\<rparr>"

definition active_world :: "real world" where
  "active_world = idle_world\<lparr>active_code := Some 0\<rparr>"

section \<open>Properties\<close>

subsection \<open>Helper facts\<close>

lemma streams_upd_stream:
  "streams (upd_stream c f w) d = (if d = c then f (streams w c) else streams w d)"
  by (simp add: upd_stream_def)

lemma active_code_upd_stream: "active_code (upd_stream c f w) = active_code w"
  by (simp add: upd_stream_def)

lemma BitType_set_literal_value_Some:
  "self_code self = Some c \<Longrightarrow>
   BitType_set_literal_value self v w =
     (Inr (), upd_stream c (\<lambda>s. s\<lparr>instrs := instrs s @ literal_instrs (self_reg self) v\<rparr>) w)"
  by (simp add: BitType_set_literal_value_def literal_instrs_def code_add_def
      upd_stream_def Let_def fun_eq_iff)

lemma low16_eq_self_iff: "(v AND 0xFFFF = v) = (0 \<le> v \<and> v < (65536::int))"
proof -
  have "v AND 0xFFFF = take_bit 16 v"
    by (simp add: take_bit_eq_mask mask_eq_exp_minus_1)
  then show ?thesis
    by (simp add: take_bit_int_eq_self_iff)
qed

lemma drop_bit_16_eq_div: "drop_bit 16 (v + 32768) = (v + 32768) div (65536::int)"
  by (simp add: drop_bit_eq_div)

text \<open>
  The two immediates of the integer sequence add up to the literal: the low 16 bits
  read as a signed number, plus the second immediate shifted left by 16.
\<close>

lemma literal_split_exact: "signed_take_bit 15 v + 65536 * drop_bit 16 (v + 32768) = (v::int)"
proof -
  have "signed_take_bit 15 v = (v + 32768) mod 65536 - 32768"
    by (simp add: signed_take_bit_eq_take_bit_shift take_bit_eq_mod)
  moreover have "drop_bit 16 (v + 32768) = (v + 32768) div 65536"
    by (rule drop_bit_16_eq_div)
  ultimately show ?thesis
    using mult_div_mod_eq[of 65536 "v + 32768"] by linarith
qed

lemma isinstance_SignedWordType:
  "isinstance x SignedWordType \<Longrightarrow> type_cls x = Some SignedWordType"
  by (cases "type_cls x"; cases "the (type_cls x)")
     (auto simp: isinstance_def issubclass_def)

lemma isinstance_float:
  "isinstance x SingleFloatType \<Longrightarrow> var_cls x = Some (VarCls SingleFloatType)"
  "isinstance x DoubleFloatType \<Longrightarrow> var_cls x = Some (VarCls DoubleFloatType)"
  by (cases "type_cls x"; cases "the (type_cls x)";
      auto simp: isinstance_def issubclass_def var_cls_def)+

lemma most_specific_both:
  "type_cls a = Some ka \<Longrightarrow> type_cls b = Some kb \<Longrightarrow>
   most_specific a b d =
     Inr (if issubclass kb ka then Some (type_of b)
          else if issubclass ka kb then Some (type_of a) else d)"
  by (simp add: most_specific_def hasattr_type_cls_def)

lemma most_specific_b_only:
  "type_cls a = None \<Longrightarrow> type_cls b = Some kb \<Longrightarrow>
   most_specific a b None = Inr (Some (type_of b))"
  by (simp add: most_specific_def hasattr_type_cls_def)

lemma check_operands_typed:
  "var_cls a = Some va \<Longrightarrow> \<forall>x\<in>set xs. type_cls x \<noteq> None \<Longrightarrow>
   check_operands a xs =
     (if \<exists>x\<in>set xs. var_cls x \<noteq> Some va
      then Some (Exception (Literal ''Types for all operands must be the same''))
      else None)"
  by (induction xs) (auto simp: var_cls_def)

lemma check_operands_find:
  "check_operands a xs =
     (case find (\<lambda>x. var_cls x = None \<or> var_cls x \<noteq> var_cls a) xs of
        Some x \<Rightarrow>
          Some (if var_cls x = None \<or> var_cls a = None then AttributeError ''var_cls''
                else Exception (Literal ''Types for all operands must be the same''))
      | None \<Rightarrow> None)"
  by (induction xs) (auto split: option.splits)

lemma BitType_static_untyped_self:
  "BitType_and (PyInt 12) (Variable BitType (gp 3)) = Inl (AttributeError ''_upcast'')"
  "BitType_or (PyInt 12) (Variable BitType (gp 3)) = Inl (AttributeError ''_upcast'')"
  "BitType_xor (PyInt 12) (Variable BitType (gp 3)) = Inl (AttributeError ''_upcast'')"
  by (simp_all add: BitType_and_def BitType_or_def BitType_xor_def isinstance_def
      issubclass_def)

lemma BitType_lshift_literal:
  "isinstance_int_literals other \<Longrightarrow>
   BitType_lshift self other =
     Inl (Exception (Format ''__lshift__ not implemented for %s and %s''
            [type_of self, type_of other]))"
  by (cases other) (simp_all add: BitType_lshift_def isinstance_def)

lemma SignedWordType_div_unsupported:
  "\<not> isinstance other SignedWordType \<Longrightarrow>
   SignedWordType_div self other =
     Inl (Exception (Format ''__div__ not implemented for %s and %s''
            [type_of self, type_of other]))"
  by (simp add: SignedWordType_div_def)

lemma new_Bits_Some:
  "active_code w = Some a \<Longrightarrow>
   new_Bits v r w =
     (Inr \<lparr>self_value = Some v, self_reg = r, self_code = Some a\<rparr>,
      upd_stream a (\<lambda>s. s\<lparr>instrs := instrs s @ literal_instrs r v\<rparr>) w)"
  by (simp add: new_Bits_def BitType_set_literal_value_Some)


lemma acquire_Cons:
  "free_regs (streams w c) = r # rs \<Longrightarrow>
   code_acquire_register c w = (Inr r, upd_stream c (\<lambda>s. s\<lparr>free_regs := rs\<rparr>) w)"
  by (simp add: code_acquire_register_def)


lemma free_regs_add_storage:
  "free_regs (streams (code_add_storage c a w) d) = free_regs (streams w d)"
  by (simp add: code_add_storage_def streams_upd_stream)

lemma active_code_add_storage: "active_code (code_add_storage c a w) = active_code w"
  by (simp add: code_add_storage_def active_code_upd_stream)

lemma SingleFloatType_eq:
  "SingleFloatType_set_literal_value self v buf w =
     float_set_literal_value lfs CHR ''f'' self buf w"
  by (simp add: SingleFloatType_set_literal_value_def float_set_literal_value_def)

lemma DoubleFloatType_eq:
  "DoubleFloatType_set_literal_value self v buf w =
     float_set_literal_value lfd CHR ''d'' self buf w"
  by (simp add: DoubleFloatType_set_literal_value_def float_set_literal_value_def)

lemma float_returns:
  assumes "self_value self = Some x" and "self_code self = Some c"
    and "free_regs (streams w c) = r # rs" and "active_code w = Some a"
  shows "float_set_literal_value ld tc self buf w =
     (Inr (), float_literal_world ld tc x (self_reg self) c a r rs buf w)"
  using assms
  by (simp add: float_set_literal_value_def float_literal_world_def
      acquire_Cons free_regs_add_storage new_Bits_Some active_code_add_storage
      active_code_upd_stream)


lemma float_literal_world_fields:
  "free_regs (streams (float_literal_world ld tc x dst c a r rs buf w) c) = r # rs"
  "storage (streams (float_literal_world ld tc x dst c a r rs buf w) c) =
     storage (streams w c) @ [\<lparr>typecode = tc, items = [x], buffer_address = buf\<rparr>]"
  "instrs (streams (float_literal_world ld tc x dst c a r rs buf w) c) =
     instrs (streams w c) @ (if a = c then literal_instrs r buf else []) @
     [Instr ld [Reg dst, Reg r, Imm 0]]"
  "a \<noteq> c \<Longrightarrow> instrs (streams (float_literal_world ld tc x dst c a r rs buf w) a) =
     instrs (streams w a) @ literal_instrs r buf"
  by (simp_all add: float_literal_world_def code_release_register_def code_add_def
      code_add_storage_def streams_upd_stream)



lemma mro_head: "mro k = k # tl (mro k)"
  by (cases k) simp_all

lemma find_attr_own: "f k = Some c \<Longrightarrow> find_attr f (mro k) = Some c"
  by (subst mro_head) simp

lemma make_user_type_post:
  "\<exists>st'. make_user_type nm k st = Inr st'
     \<and> classes st' = classes st @
         [\<lparr>cls_name = nm, cls_bases = [SpeVariable, TypeBase k], cls_type_cls = k\<rparr>,
          \<lparr>cls_name = nm @ ''Ex'', cls_bases = [SpeExpression, TypeBase k], cls_type_cls = k\<rparr>]
     \<and> get_var_cls st' k = Some (length (classes st))
     \<and> get_expr_cls st' k = Some (Suc (length (classes st)))
     \<and> cls_type_cls (classes st' ! length (classes st)) = k
     \<and> cls_type_cls (classes st' ! Suc (length (classes st))) = k
     \<and> globals st' nm = Some (length (classes st))"
  by (simp add: make_user_type_def Let_def get_var_cls_def get_expr_cls_def find_attr_own
      nth_append)

lemma registered_eq: "register_types user_types empty_pystate = Inr registered"
  by (simp add: registered_def user_types_def make_user_type_def empty_pystate_def Let_def)

lemma classes_registered:
  "classes registered =
    [\<lparr>cls_name = ''Bits'', cls_bases = [SpeVariable, TypeBase BitType],
       cls_type_cls = BitType\<rparr>,
     \<lparr>cls_name = ''BitsEx'', cls_bases = [SpeExpression, TypeBase BitType],
       cls_type_cls = BitType\<rparr>,
     \<lparr>cls_name = ''UnsignedWord'', cls_bases = [SpeVariable, TypeBase UnsignedWordType],
       cls_type_cls = UnsignedWordType\<rparr>,
     \<lparr>cls_name = ''UnsignedWordEx'', cls_bases = [SpeExpression, TypeBase UnsignedWordType],
       cls_type_cls = UnsignedWordType\<rparr>,
     \<lparr>cls_name = ''SignedWord'', cls_bases = [SpeVariable, TypeBase SignedWordType],
       cls_type_cls = SignedWordType\<rparr>,
     \<lparr>cls_name = ''SignedWordEx'', cls_bases = [SpeExpression, TypeBase SignedWordType],
       cls_type_cls = SignedWordType\<rparr>,
     \<lparr>cls_name = ''SingleFloat'', cls_bases = [SpeVariable, TypeBase SingleFloatType],
       cls_type_cls = SingleFloatType\<rparr>,
     \<lparr>cls_name = ''SingleFloatEx'', cls_bases = [SpeExpression, TypeBase SingleFloatType],
       cls_type_cls = SingleFloatType\<rparr>,
     \<lparr>cls_name = ''DoubleFloat'', cls_bases = [SpeVariable, TypeBase DoubleFloatType],
       cls_type_cls = DoubleFloatType\<rparr>,
     \<lparr>cls_name = ''DoubleFloatEx'', cls_bases = [SpeExpression, TypeBase DoubleFloatType],
       cls_type_cls = DoubleFloatType\<rparr>]"
  by (simp add: registered_def user_types_def make_user_type_def empty_pystate_def Let_def)

lemma var_cls_attr_registered:
  "var_cls_attr registered k =
     Some (case k of BitType \<Rightarrow> 0 | UnsignedWordType \<Rightarrow> 2 | SignedWordType \<Rightarrow> 4
           | SingleFloatType \<Rightarrow> 6 | DoubleFloatType \<Rightarrow> 8)"
  by (cases k)
     (simp_all add: registered_def user_types_def make_user_type_def empty_pystate_def Let_def)

lemma expr_cls_attr_registered:
  "expr_cls_attr registered k =
     Some (case k of BitType \<Rightarrow> 1 | UnsignedWordType \<Rightarrow> 3 | SignedWordType \<Rightarrow> 5
           | SingleFloatType \<Rightarrow> 7 | DoubleFloatType \<Rightarrow> 9)"
  by (cases k)
     (simp_all add: registered_def user_types_def make_user_type_def empty_pystate_def Let_def)

lemma upt_10: "[0 ..< 10] = [0, 1, 2, 3, 4, 5, 6, 7, 8, 9::nat]"
  by (simp add: upt_rec)

lemma upt_12: "[0 ..< 12] = [0, 1, 2, 3, 4, 5, 6, 7, 8, 9, 10, 11::nat]"
  by (simp add: upt_rec)

lemma registered_once:
  "\<exists>v e. get_var_cls registered k = Some v \<and> get_expr_cls registered k = Some e
     \<and> cls_type_cls (classes registered ! v) = k
     \<and> cls_type_cls (classes registered ! e) = k
     \<and> classes_of registered SpeVariable k = [v]
     \<and> classes_of registered SpeExpression k = [e]"
  by (cases k)
     (simp_all add: get_var_cls_def get_expr_cls_def find_attr_own var_cls_attr_registered
        expr_cls_attr_registered classes_of_def classes_registered upt_10)

text \<open>The normal path of \<open>synthesize\<close> puts the saved stream back.\<close>

lemma synthesize_returns_restores:
  "buffers self = Some b \<Longrightarrow> stride self = Some t \<Longrightarrow>
   draw self c (w\<lparr>active_code := Some c\<rparr>) = (Inr (), w2) \<Longrightarrow>
   synthesize draw self c w = (Inr (), w2\<lparr>active_code := active_code w\<rparr>)"
  by (simp add: synthesize_def Let_def)

subsection \<open>C1: the type-precedence resolver\<close>

text \<open>
  C1. The claim (and the docstring of \<open>_most_specific\<close>) says that with no default and
  only \<open>a\<close> declaring a kind the resolver returns \<open>a\<close>'s kind. The code tests
  \<open>hasattr(a, 'type_cls')\<close> twice and never \<open>b\<close>, so for a signed-word variable \<open>a\<close> and
  the host integer 12 as \<open>b\<close> it goes on to read \<open>b.type_cls\<close> and raises AttributeError
  instead of returning \<open>SignedWord\<close>.
\<close>

theorem most_specific_a_only_raises:
  "most_specific (Variable SignedWordType (gp 3)) (PyInt 12) None =
     Inl (AttributeError ''type_cls'')"
  by (simp add: most_specific_def hasattr_type_cls_def)

subsection \<open>C2: integer literals\<close>

text \<open>
  C2. Materializing the integer literal \<open>v\<close> into a storage value with a stream always
  appends one \<open>addi reg, 0, v\<close> to that stream, and appends a second instruction
  \<open>addis reg, reg, (v + 32768) >> 16\<close> exactly when \<open>v & 0xFFFF\<close> differs from \<open>v\<close>; the
  call returns normally.
\<close>

theorem BitType_set_literal_value_emits:
  assumes "self_code self = Some c"
  shows "fst (BitType_set_literal_value self v w) = Inr () \<and>
    instrs (streams (snd (BitType_set_literal_value self v w)) c) =
      instrs (streams w c) @
      (if v AND 0xFFFF \<noteq> v
       then [Instr addi [Reg (self_reg self), Imm 0, Imm v],
             Instr addis [Reg (self_reg self), Reg (self_reg self),
               Imm (drop_bit 16 (v + 32768))]]
       else [Instr addi [Reg (self_reg self), Imm 0, Imm v]])"
  using assms
  by (simp add: BitType_set_literal_value_Some streams_upd_stream literal_instrs_def)

theorem BitType_set_literal_value_emits_witness:
  "fst (BitType_set_literal_value
          \<lparr>self_value = Some (252645375::int), self_reg = gp 5, self_code = Some 0\<rparr>
          252645375 idle_world) = Inr () \<and>
   instrs (streams (snd (BitType_set_literal_value
          \<lparr>self_value = Some (252645375::int), self_reg = gp 5, self_code = Some 0\<rparr>
          252645375 idle_world)) 0) =
     [Instr addi [Reg (gp 5), Imm 0, Imm 252645375],
      Instr addis [Reg (gp 5), Reg (gp 5), Imm 3855]]"
  using BitType_set_literal_value_emits
    [of "\<lparr>self_value = Some (252645375::int), self_reg = gp 5, self_code = Some 0\<rparr>"
        0 252645375 idle_world]
  by (simp add: idle_world_def)

subsection \<open>C3: the scratch register of the floating-point literals\<close>




subsection \<open>C4: the floating-point intrinsic dispatcher\<close>

text \<open>
  C4, as stated, fails: the exception for operands of different kinds carries the fixed
  message "Types for all operands must be the same", whichever operand offends and
  whatever its kind (first two calls), so it does not name the operand; and not every
  operand list gets one of the claim's three outcomes: the empty list raises
  IndexError, and a single-precision value followed by a host float raises
  AttributeError.
\<close>

theorem float_function_call_counterexample:
  "float_function_call fmadd
     [Variable SingleFloatType (fp 1), Variable DoubleFloatType (fp 2),
      Variable SingleFloatType (fp 3)]
     = Inl (Exception (Literal ''Types for all operands must be the same''))
   \<and> float_function_call fmadd
     [Variable SingleFloatType (fp 1), Variable SingleFloatType (fp 2),
      Variable SignedWordType (gp 3)]
     = Inl (Exception (Literal ''Types for all operands must be the same''))
   \<and> float_function_call fmadd [] = Inl (IndexError ''tuple index out of range'')
   \<and> float_function_call fmadd [Variable SingleFloatType (fp 1), PyFloat]
     = Inl (AttributeError ''var_cls'')"
  by (simp add: float_function_call_def fmadd_def var_cls_def)

text \<open>
  C4, amended. A callable returned by the dispatcher raises IndexError on the empty
  operand list. On a list with first operand \<open>a\<close> it looks, among the operands after
  \<open>a\<close> and in their order, for the first one that has no \<open>var_cls\<close> or whose \<open>var_cls\<close>
  differs from \<open>a\<close>'s. If there is one, the call raises: AttributeError when that operand
  or \<open>a\<close> has no \<open>var_cls\<close>, and otherwise an exception with the fixed message "Types for
  all operands must be the same", which does not name the operand. If there is none,
  it forwards all operands to the factory form of the single-precision instruction
  when \<open>a\<close> is single-precision and of the double-precision instruction when \<open>a\<close> is
  double-precision, with the result kind forced to \<open>SingleFloat\<close> or \<open>DoubleFloat\<close>, and
  for an \<open>a\<close> of any other kind raises an exception whose message is the intrinsic's
  name, " is not implemeneted for " and the class of \<open>a\<close>. In particular, on a list of
  typed operands the call raises the fixed-message exception exactly when some
  operand after the first has a Variable class other than the first operand's, and the
  forced result kind is the operands' own Variable class.
\<close>

theorem float_function_call_cases:
  "float_function_call self [] = Inl (IndexError ''tuple index out of range'')
   \<and> float_function_call self (a # rest) =
     (case find (\<lambda>x. var_cls x = None \<or> var_cls x \<noteq> var_cls a) rest of
        Some x \<Rightarrow>
          if var_cls x = None \<or> var_cls a = None then Inl (AttributeError ''var_cls'')
          else Inl (Exception (Literal ''Types for all operands must be the same''))
      | None \<Rightarrow>
          if isinstance a SingleFloatType
          then Inr (Factory (single_func self) (a # rest) (Some (VarCls SingleFloatType)))
          else if isinstance a DoubleFloatType
          then Inr (Factory (double_func self) (a # rest) (Some (VarCls DoubleFloatType)))
          else Inl (Exception (Concat (name self @ '' is not implemeneted for '') (type_of a))))
   \<and> ((\<forall>x\<in>set (a # rest). type_cls x \<noteq> None) \<longrightarrow>
        float_function_call self (a # rest) =
          (if \<exists>x\<in>set rest. var_cls x \<noteq> var_cls a
           then Inl (Exception (Literal ''Types for all operands must be the same''))
           else if isinstance a SingleFloatType
           then Inr (Factory (single_func self) (a # rest) (var_cls a))
           else if isinstance a DoubleFloatType
           then Inr (Factory (double_func self) (a # rest) (var_cls a))
           else Inl (Exception
                  (Concat (name self @ '' is not implemeneted for '') (type_of a)))))"
proof (intro conjI impI)
  show "float_function_call self [] = Inl (IndexError ''tuple index out of range'')"
    by (simp add: float_function_call_def)
next
  show "float_function_call self (a # rest) =
     (case find (\<lambda>x. var_cls x = None \<or> var_cls x \<noteq> var_cls a) rest of
        Some x \<Rightarrow>
          if var_cls x = None \<or> var_cls a = None then Inl (AttributeError ''var_cls'')
          else Inl (Exception (Literal ''Types for all operands must be the same''))
      | None \<Rightarrow>
          if isinstance a SingleFloatType
          then Inr (Factory (single_func self) (a # rest) (Some (VarCls SingleFloatType)))
          else if isinstance a DoubleFloatType
          then Inr (Factory (double_func self) (a # rest) (Some (VarCls DoubleFloatType)))
          else Inl (Exception (Concat (name self @ '' is not implemeneted for '') (type_of a))))"
    by (simp add: float_function_call_def check_operands_find ex_def split: option.split)
next
  assume typed: "\<forall>x\<in>set (a # rest). type_cls x \<noteq> None"
  then obtain ka where "type_cls a = Some ka" by auto
  then have va: "var_cls a = Some (VarCls ka)" by (simp add: var_cls_def)
  from typed have rest: "\<forall>x\<in>set rest. type_cls x \<noteq> None" by simp
  show "float_function_call self (a # rest) =
          (if \<exists>x\<in>set rest. var_cls x \<noteq> var_cls a
           then Inl (Exception (Literal ''Types for all operands must be the same''))
           else if isinstance a SingleFloatType
           then Inr (Factory (single_func self) (a # rest) (var_cls a))
           else if isinstance a DoubleFloatType
           then Inr (Factory (double_func self) (a # rest) (var_cls a))
           else Inl (Exception
                  (Concat (name self @ '' is not implemeneted for '') (type_of a))))"
    using isinstance_float[of a]
    by (auto simp add: float_function_call_def check_operands_typed[OF va rest] va ex_def)
qed

theorem float_function_call_cases_witness:
  "float_function_call fmadd
     [Variable DoubleFloatType (fp 1), Variable DoubleFloatType (fp 2),
      Expression DoubleFloatType faddx []]
   = Inr (Factory fmaddx
       [Variable DoubleFloatType (fp 1), Variable DoubleFloatType (fp 2),
        Expression DoubleFloatType faddx []]
       (Some (VarCls DoubleFloatType)))
   \<and> float_function_call fsqrt [PyFloat] =
       Inl (Exception (Concat ''fsqrt is not implemeneted for '' FloatCls))
   \<and> float_function_call fmadd
       [Variable SingleFloatType (fp 1), Variable DoubleFloatType (fp 2), PyFloat]
     = Inl (Exception (Literal ''Types for all operands must be the same''))"
  using float_function_call_cases
    [of fmadd "Variable DoubleFloatType (fp 1)"
        "[Variable DoubleFloatType (fp 2), Expression DoubleFloatType faddx []]"]
    float_function_call_cases [of fsqrt PyFloat "[]"]
    float_function_call_cases
    [of fmadd "Variable SingleFloatType (fp 1)" "[Variable DoubleFloatType (fp 2), PyFloat]"]
  by (simp add: fmadd_def fsqrt_def var_cls_def isinstance_def issubclass_def)

subsection \<open>C5: unsupported operand combinations\<close>

text \<open>
  C5. Every other operator answers an operand it does not accept with
  \<open>Exception('__op__ not implemented for %s and %s' % (type(self), type(other)))\<close>.
  The unsigned-word divide, given the host integer 5, runs \<open>raise NotImplemented\<close>
  instead: a TypeError of the interpreter that names neither the operator nor the
  operand types. The signed-word subtract, given the same operand, names the operator
  \<open>__add__\<close>.
\<close>

theorem UnsignedWordType_div_raises_NotImplemented:
  "UnsignedWordType_div (Variable UnsignedWordType (gp 3)) (PyInt 5) =
     Inl (TypeError
       ''exceptions must be old-style classes or derived from BaseException, not NotImplementedType'')
   \<and> SignedWordType_sub (Variable SignedWordType (gp 3)) (PyInt 5) =
     Inl (Exception (Format ''__add__ not implemented for %s and %s''
            [VarCls SignedWordType, IntCls]))"
  by (simp add: UnsignedWordType_div_def SignedWordType_sub_def isinstance_def)

subsection \<open>C6: the dual-class factory\<close>

text \<open>
  C6, as stated, fails: the factory has no test for a kind that is already registered.
  Invoked again for \<open>BitType\<close> after the module's own registration it returns normally,
  and there are then two Variable classes and two Expression classes of that kind,
  \<open>BitType.var_cls\<close> moving from the first to the new one.
\<close>

theorem make_user_type_counterexample:
  "(case make_user_type ''Bits'' BitType registered of
      Inl e \<Rightarrow> False
    | Inr st' \<Rightarrow>
        classes_of st' SpeVariable BitType = [0, 10] \<and>
        classes_of st' SpeExpression BitType = [1, 11] \<and>
        get_var_cls registered BitType = Some 0 \<and>
        get_var_cls st' BitType = Some 10)"
  by (simp add: make_user_type_def Let_def classes_of_def classes_registered upt_12
      get_var_cls_def find_attr_own var_cls_attr_registered)

text \<open>
  C6, amended. The module's registration runs the factory once for each of the five
  kinds, after which every kind has exactly one Variable class and one Expression
  class, with \<open>kind.var_cls.type_cls is kind\<close> and \<open>kind.expr_cls.type_cls is kind\<close>.
  Every invocation of the factory, in any state and for any kind, returns normally: it
  creates one new Variable class and one new Expression class whose \<open>type_cls\<close> is the
  kind, links the kind's \<open>var_cls\<close> and \<open>expr_cls\<close> to them and binds the name to the
  new Variable class.
\<close>

theorem make_user_type_links:
  "register_types user_types empty_pystate = Inr registered
   \<and> (\<exists>v e. get_var_cls registered k = Some v \<and> get_expr_cls registered k = Some e
        \<and> cls_type_cls (classes registered ! v) = k
        \<and> cls_type_cls (classes registered ! e) = k
        \<and> classes_of registered SpeVariable k = [v]
        \<and> classes_of registered SpeExpression k = [e])
   \<and> (\<exists>st'. make_user_type nm k st = Inr st'
        \<and> classes st' = classes st @
            [\<lparr>cls_name = nm, cls_bases = [SpeVariable, TypeBase k], cls_type_cls = k\<rparr>,
             \<lparr>cls_name = nm @ ''Ex'', cls_bases = [SpeExpression, TypeBase k],
               cls_type_cls = k\<rparr>]
        \<and> get_var_cls st' k = Some (length (classes st))
        \<and> get_expr_cls st' k = Some (Suc (length (classes st)))
        \<and> cls_type_cls (classes st' ! length (classes st)) = k
        \<and> cls_type_cls (classes st' ! Suc (length (classes st))) = k
        \<and> globals st' nm = Some (length (classes st)))"
  using registered_eq registered_once[of k] make_user_type_post[of nm k st]
  by blast

theorem make_user_type_links_witness:
  "get_var_cls registered SignedWordType = Some 4
   \<and> get_expr_cls registered SignedWordType = Some 5
   \<and> classes_of registered SpeVariable SignedWordType = [4]
   \<and> classes_of registered SpeExpression SignedWordType = [5]"
  using make_user_type_links[of SignedWordType "''SignedWord''" registered]
  by (simp add: get_var_cls_def get_expr_cls_def find_attr_own var_cls_attr_registered
        expr_cls_attr_registered classes_of_def classes_registered upt_10)

subsection \<open>C7: the active-code slot in the framebuffer demo\<close>

text \<open>
  C7. \<open>synthesize\<close> saves the active stream and restores it at its end, but the test
  for unset buffers raises after the new stream is installed: called on a fresh
  \<open>FBDraw\<close> with stream 1 while stream 0 is active, it raises "Please set buffers" and
  leaves stream 1 in the slot, not stream 0.
\<close>

theorem synthesize_unset_buffers_keeps_new_code:
  "synthesize draw FBDraw_init 1 \<lparr>streams = s, active_code = Some 0\<rparr> =
     (Inl (Exception (Literal ''Please set buffers'')),
      \<lparr>streams = s, active_code = Some 1\<rparr>)"
  by (simp add: synthesize_def FBDraw_init_def)

subsection \<open>C8: signed-word subtraction\<close>

text \<open>
  C8. For signed-word operands \<open>self\<close> and \<open>other\<close>, \<open>self - other\<close> is an instance of
  \<open>self\<close>'s own Expression class (\<open>SignedWordEx\<close>) holding the instruction \<open>subfx\<close> with
  the operands swapped: \<open>other\<close> first, \<open>self\<close> second.
\<close>

theorem SignedWordType_sub_swaps:
  assumes "isinstance self SignedWordType" and "isinstance other SignedWordType"
  shows "SignedWordType_sub self other =
           Inr (Instance (ExCls SignedWordType) subfx [other, self])
     \<and> expr_cls self = Some (ExCls SignedWordType)"
  using assms isinstance_SignedWordType[OF assms(1)]
  by (simp add: SignedWordType_sub_def expr_cls_def new_Expression_def)

theorem SignedWordType_sub_swaps_witness:
  "SignedWordType_sub (Variable SignedWordType (gp 3)) (Variable SignedWordType (gp 4)) =
     Inr (Instance (ExCls SignedWordType) subfx
            [Variable SignedWordType (gp 4), Variable SignedWordType (gp 3)])"
  using SignedWordType_sub_swaps
    [of "Variable SignedWordType (gp 3)" "Variable SignedWordType (gp 4)"]
  by (simp add: isinstance_def issubclass_def)

subsection \<open>C9: bitwise operators on unrelated siblings\<close>

text \<open>
  C9. For operands \<open>a\<close> and \<open>b\<close> of the generic-bits hierarchy whose kinds are unrelated
  (neither is a subclass of the other), the resolver returns its default \<open>None\<close>, and
  \<open>a & b\<close>, \<open>a | b\<close> and \<open>a ^ b\<close> do not raise: each returns the computed value of the
  register-register instruction on \<open>(a, b)\<close> with the forced result kind \<open>None\<close>.
\<close>

theorem BitType_siblings_upcast_None:
  assumes "isinstance a BitType" and "isinstance b BitType"
    and "type_cls a = Some ka" and "type_cls b = Some kb"
    and "\<not> issubclass ka kb" and "\<not> issubclass kb ka"
  shows "most_specific a b None = Inr None
     \<and> BitType_and a b = Inr (Factory andx [a, b] None)
     \<and> BitType_or a b = Inr (Factory orx [a, b] None)
     \<and> BitType_xor a b = Inr (Factory xorx [a, b] None)"
  using assms
  by (simp add: most_specific_both BitType_and_def BitType_or_def BitType_xor_def
      BitType_upcast_def ex_def)

theorem BitType_siblings_upcast_None_witness:
  "most_specific (Variable UnsignedWordType (gp 3)) (Expression SignedWordType addx []) None
     = Inr None
   \<and> BitType_and (Variable UnsignedWordType (gp 3)) (Expression SignedWordType addx []) =
       Inr (Factory andx
              [Variable UnsignedWordType (gp 3), Expression SignedWordType addx []] None)"
  using BitType_siblings_upcast_None
    [of "Variable UnsignedWordType (gp 3)" "Expression SignedWordType addx []"
        UnsignedWordType SignedWordType]
  by (simp add: isinstance_def issubclass_def)

subsection \<open>C10: the floating-point literal routines ignore their argument\<close>

text \<open>
  C10. For both floating-point kinds the result of the literal routine does not depend
  on the argument \<open>value\<close>. When the call returns (the object holds a float \<open>x\<close> in
  \<open>self.value\<close> and a stream \<open>c\<close>, a register \<open>r\<close> is free and a stream \<open>a\<close> is
  active), the constant pool of \<open>c\<close> gains one array of the kind's typecode (\<open>'f'\<close>, 32
  bits; \<open>'d'\<close>, 64 bits) holding \<open>x\<close>, the address of that array is materialized into
  \<open>r\<close> in the active stream, and the load appended to \<open>c\<close> is \<open>lfs\<close> (\<open>lfd\<close>) of the
  value's register from \<open>r\<close> at offset 0.
\<close>

theorem float_literal_uses_self_value:
  assumes "self_value self = Some x" and "self_code self = Some c"
    and "free_regs (streams w c) = r # rs" and "active_code w = Some a"
  shows
   "SingleFloatType_set_literal_value self v buf w =
      SingleFloatType_set_literal_value self v' buf w
    \<and> fst (SingleFloatType_set_literal_value self v buf w) = Inr ()
    \<and> storage (streams (snd (SingleFloatType_set_literal_value self v buf w)) c) =
        storage (streams w c) @ [\<lparr>typecode = CHR ''f'', items = [x], buffer_address = buf\<rparr>]
    \<and> instrs (streams (snd (SingleFloatType_set_literal_value self v buf w)) c) =
        instrs (streams w c) @ (if a = c then literal_instrs r buf else []) @
        [Instr lfs [Reg (self_reg self), Reg r, Imm 0]]
    \<and> (a \<noteq> c \<longrightarrow>
        instrs (streams (snd (SingleFloatType_set_literal_value self v buf w)) a) =
          instrs (streams w a) @ literal_instrs r buf)
    \<and> DoubleFloatType_set_literal_value self v buf w =
      DoubleFloatType_set_literal_value self v' buf w
    \<and> fst (DoubleFloatType_set_literal_value self v buf w) = Inr ()
    \<and> storage (streams (snd (DoubleFloatType_set_literal_value self v buf w)) c) =
        storage (streams w c) @ [\<lparr>typecode = CHR ''d'', items = [x], buffer_address = buf\<rparr>]
    \<and> instrs (streams (snd (DoubleFloatType_set_literal_value self v buf w)) c) =
        instrs (streams w c) @ (if a = c then literal_instrs r buf else []) @
        [Instr lfd [Reg (self_reg self), Reg r, Imm 0]]
    \<and> (a \<noteq> c \<longrightarrow>
        instrs (streams (snd (DoubleFloatType_set_literal_value self v buf w)) a) =
          instrs (streams w a) @ literal_instrs r buf)"
  by (simp add: SingleFloatType_eq DoubleFloatType_eq float_returns[OF assms]
      float_literal_world_fields)

theorem float_literal_uses_self_value_witness:
  "storage (streams (snd (SingleFloatType_set_literal_value
          \<lparr>self_value = Some (3/2::real), self_reg = fp 1, self_code = Some 0\<rparr>
          (5/2::real) 268468224 active_world)) 0) =
      [\<lparr>typecode = CHR ''f'', items = [3/2], buffer_address = 268468224\<rparr>]
   \<and> instrs (streams (snd (SingleFloatType_set_literal_value
          \<lparr>self_value = Some (3/2::real), self_reg = fp 1, self_code = Some 0\<rparr>
          (5/2::real) 268468224 active_world)) 0) =
      [Instr addi [Reg (gp 3), Imm 0, Imm 268468224],
       Instr addis [Reg (gp 3), Reg (gp 3), Imm 4097],
       Instr lfs [Reg (fp 1), Reg (gp 3), Imm 0]]"
  using float_literal_uses_self_value
    [of "\<lparr>self_value = Some (3/2::real), self_reg = fp 1, self_code = Some 0\<rparr>" "3/2" 0
        active_world "gp 3" "[gp 4]" 0 "5/2::real" 268468224 "5/2::real"]
  by (simp add: active_world_def idle_world_def literal_instrs_def)

end
